theory Spec2Isabelle
  imports Complex_Main "HOL-Library.Word" "HOL-Library.AList"
begin

section \<open>JavaScript values and the library functions the code calls\<close>

text \<open>
  JSON data as the code receives and builds it. An object is the list of its entries in
  the order \<open>Object.entries\<close> reports them (keys are distinct in a JavaScript object).
  Numbers are modelled as reals: the timestamps that the token code computes are
  integers, and the floating-point operations of the generators are parameters.
  Strings are lists of 8-bit characters.
\<close>

datatype json =
    JNull
  | JBool bool
  | JNum real
  | JStr string
  | JArr "json list"
  | JObj "(string \<times> json) list"

text \<open>\<open>new Error(message)\<close>: the only exception the modelled code constructs.\<close>

datatype js_error = Error string

type_synonym byte = "8 word"

text \<open>
  The functions of Node's \<open>crypto\<close>, \<open>Buffer\<close> and \<open>JSON\<close> that the code calls and
  that are not part of the repository. They are parameters of the model:
  \<^item> \<open>sha256_hex s\<close> is \<open>crypto.createHash('sha256').update(s).digest('hex')\<close>;
  \<^item> \<open>hmac_sha256_hex k s\<close> is \<open>crypto.createHmac('sha256', k).update(s).digest('hex')\<close>;
  \<^item> \<open>cipheriv key iv s\<close> is \<open>crypto.createCipheriv('aes-256-cbc', key, iv)\<close> followed by
    \<open>update(s, 'utf8')\<close> and \<open>final()\<close>: the ciphertext bytes, or the message of the
    exception thrown;
  \<^item> \<open>decipheriv key iv ct\<close> is \<open>crypto.createDecipheriv('aes-256-cbc', key, iv)\<close> followed
    by \<open>update(ct, .., 'utf8')\<close> and \<open>final('utf8')\<close>: the plaintext, or the message of
    the exception thrown;
  \<^item> \<open>stringify_base64 v\<close> is \<open>Buffer.from(JSON.stringify(v)).toString('base64')\<close>;
  \<^item> \<open>parse_base64 s\<close> is \<open>JSON.parse(Buffer.from(s, 'base64').toString())\<close>: the
    parsed value, or the message of the exception thrown;
  \<^item> \<open>ToNumber v\<close> is the numeric conversion the greater-than operator applies to a string,
    array or object operand (\<open>None\<close> is NaN).
\<close>

record node =
  sha256_hex :: "string \<Rightarrow> string"
  hmac_sha256_hex :: "string \<Rightarrow> string \<Rightarrow> string"
  cipheriv :: "byte list \<Rightarrow> byte list \<Rightarrow> string \<Rightarrow> string + byte list"
  decipheriv :: "byte list \<Rightarrow> byte list \<Rightarrow> byte list \<Rightarrow> string + string"
  stringify_base64 :: "json \<Rightarrow> string"
  parse_base64 :: "string \<Rightarrow> string + json"
  ToNumber :: "json \<Rightarrow> real option"

subsection \<open>String and Buffer primitives\<close>

text \<open>\<open>String.prototype.split\<close> with a one-character separator.\<close>

fun split_str :: "char \<Rightarrow> string \<Rightarrow> string list" where
  "split_str sep [] = [[]]"
| "split_str sep (c # cs) =
     (if c = sep then [] # split_str sep cs
      else (case split_str sep cs of
              [] \<Rightarrow> [[c]]
            | p # ps \<Rightarrow> (c # p) # ps))"

text \<open>\<open>String.prototype.toLowerCase\<close> on 8-bit characters: the ASCII capitals are mapped.\<close>

definition toLowerCase_char :: "char \<Rightarrow> char" where
  "toLowerCase_char c =
     (case map_of (zip ''ABCDEFGHIJKLMNOPQRSTUVWXYZ'' ''abcdefghijklmnopqrstuvwxyz'') c of
        Some l \<Rightarrow> l
      | None \<Rightarrow> c)"

definition toLowerCase :: "string \<Rightarrow> string" where
  "toLowerCase s = map toLowerCase_char s"


text \<open>The value of a hexadecimal digit, in either case.\<close>

definition hex_value :: "char \<Rightarrow> nat option" where
  "hex_value c =
     (let n = (of_char c :: nat) in
      if 48 \<le> n \<and> n \<le> 57 then Some (n - 48)
      else if 97 \<le> n \<and> n \<le> 102 then Some (n - 87)
      else if 65 \<le> n \<and> n \<le> 70 then Some (n - 55)
      else None)"

definition is_hex :: "char \<Rightarrow> bool" where
  "is_hex c = (hex_value c \<noteq> None)"

definition hex_digit :: "nat \<Rightarrow> char" where
  "hex_digit n = ''0123456789abcdef'' ! (n mod 16)"

text \<open>\<open>buf.toString('hex')\<close>: two lowercase digits for each byte.\<close>

definition toString_hex :: "byte list \<Rightarrow> string" where
  "toString_hex bs = concat (map (\<lambda>b. [hex_digit (unat b div 16), hex_digit (unat b mod 16)]) bs)"

text \<open>
  \<open>Buffer.from(s, 'hex')\<close>: pairs of digits are decoded until the first pair that is not
  hexadecimal; a trailing single character is dropped.
\<close>

fun Buffer_from_hex :: "string \<Rightarrow> byte list" where
  "Buffer_from_hex (a # b # rest) =
     (case (hex_value a, hex_value b) of
        (Some x, Some y) \<Rightarrow> word_of_nat (16 * x + y) # Buffer_from_hex rest
      | _ \<Rightarrow> [])"
| "Buffer_from_hex _ = []"

section \<open>PasswordEncryption (scripts/encryptPassword.js, the file unnamed/part_004)\<close>

text \<open>
  \<open>prepareSecretKey\<close>: the regular expression \<open>/^[0-9a-fA-F]{64}$/\<close> accepts exactly the
  strings of 64 hexadecimal digits.
\<close>

definition prepareSecretKey :: "node \<Rightarrow> string \<Rightarrow> string" where
  "prepareSecretKey c key =
     (if length key = 64 \<and> list_all is_hex key then key else sha256_hex c key)"

text \<open>
  \<open>encrypt\<close>. The random initialisation vector \<open>crypto.randomBytes(this.ivLength)\<close> is
  the argument \<open>iv\<close>. \<open>encrypt_try\<close> is the body of the \<open>try\<close> block, \<open>encrypt\<close> adds the
  \<open>catch\<close>: the lines written by \<open>console.error\<close> and the outcome.
\<close>

definition encrypt_try :: "node \<Rightarrow> string \<Rightarrow> byte list \<Rightarrow> string \<Rightarrow> js_error + string" where
  "encrypt_try c secretKey iv password =
     (case cipheriv c (Buffer_from_hex secretKey) iv password of
        Inl msg \<Rightarrow> Inl (Error msg)
      | Inr encrypted \<Rightarrow> Inr (toString_hex iv @ '':'' @ toString_hex encrypted))"

definition encrypt :: "node \<Rightarrow> string \<Rightarrow> byte list \<Rightarrow> string \<Rightarrow> string list \<times> (js_error + string)" where
  "encrypt c secretKey iv password =
     (case encrypt_try c secretKey iv password of
        Inl (Error msg) \<Rightarrow>
          ([''Encryption error: '' @ msg], Inl (Error ''Failed to encrypt password''))
      | Inr combined \<Rightarrow> ([], Inr combined))"

text \<open>
  \<open>decrypt\<close>, in the same two layers. The \<open>throw\<close> of the format check is inside the
  \<open>try\<close> block, so the \<open>catch\<close> receives it like an exception of the cipher.
\<close>

definition decrypt_try :: "node \<Rightarrow> string \<Rightarrow> string \<Rightarrow> js_error + string" where
  "decrypt_try c secretKey encryptedPassword =
     (let parts = split_str CHR '':'' encryptedPassword in
      if length parts \<noteq> 2 then Inl (Error ''Invalid encrypted password format'')
      else
        (let iv = Buffer_from_hex (parts ! 0);
             encrypted = parts ! 1
         in case decipheriv c (Buffer_from_hex secretKey) iv (Buffer_from_hex encrypted) of
              Inl msg \<Rightarrow> Inl (Error msg)
            | Inr decrypted \<Rightarrow> Inr decrypted))"

definition decrypt :: "node \<Rightarrow> string \<Rightarrow> string \<Rightarrow> string list \<times> (js_error + string)" where
  "decrypt c secretKey encryptedPassword =
     (case decrypt_try c secretKey encryptedPassword of
        Inl (Error msg) \<Rightarrow>
          ([''Decryption error: '' @ msg], Inl (Error ''Failed to decrypt password''))
      | Inr decrypted \<Rightarrow> ([], Inr decrypted))"

text \<open>
  \<open>generateSecurePassword\<close>. An option that is absent (\<open>None\<close>) takes its default
  \<open>true\<close>. \<open>random i\<close> is the value of the \<open>i\<close>-th call of \<open>Math.random()\<close>; the
  \<open>for\<close> loop is \<open>generateSecurePassword_loop\<close>, with the loop counter \<open>i\<close> and the
  password built so far.
\<close>

record password_options =
  includeUppercase :: "bool option"
  includeLowercase :: "bool option"
  includeNumbers :: "bool option"
  includeSymbols :: "bool option"

definition default_true :: "bool option \<Rightarrow> bool" where
  "default_true b = (case b of None \<Rightarrow> True | Some v \<Rightarrow> v)"

definition charset_of :: "password_options \<Rightarrow> string" where
  "charset_of options =
     (if default_true (includeLowercase options) then ''abcdefghijklmnopqrstuvwxyz'' else [])
     @ (if default_true (includeUppercase options) then ''ABCDEFGHIJKLMNOPQRSTUVWXYZ'' else [])
     @ (if default_true (includeNumbers options) then ''0123456789'' else [])
     @ (if default_true (includeSymbols options) then ''!@#$%^&*()_+-=[]{}|;:,.<>?'' else [])"



text \<open>
  \<open>createSecureToken\<close>. \<open>now1\<close> and \<open>now2\<close> are the values of its two calls of
  \<open>Date.now()\<close>, in milliseconds.
\<close>

definition createSecureToken :: "node \<Rightarrow> string \<Rightarrow> int \<Rightarrow> int \<Rightarrow> string \<Rightarrow> int \<Rightarrow> string" where
  "createSecureToken c secretKey now1 now2 data expiryMinutes =
     (let payload = JObj [(''data'', JStr data),
                          (''timestamp'', JNum (of_int now1)),
                          (''expiry'', JNum (of_int (now2 + expiryMinutes * 60 * 1000)))];
          token = stringify_base64 c payload;
          signature = hmac_sha256_hex c secretKey token
      in token @ ''.'' @ signature)"

text \<open>
  \<open>decoded.expiry\<close>: a TypeError on \<open>null\<close>, \<open>undefined\<close> (\<open>None\<close>) on a value
  without that property.
\<close>

fun get_expiry :: "json \<Rightarrow> js_error + json option" where
  "get_expiry JNull = Inl (Error ''Cannot read properties of null (reading expiry)'')"
| "get_expiry (JObj kvs) = Inr (map_of kvs ''expiry'')"
| "get_expiry v = Inr None"

text \<open>\<open>Date.now() > x\<close> for a property value \<open>x\<close>, with JavaScript's numeric conversion.\<close>

fun now_gt :: "node \<Rightarrow> int \<Rightarrow> json option \<Rightarrow> bool" where
  "now_gt c now None = False"
| "now_gt c now (Some JNull) = (now > 0)"
| "now_gt c now (Some (JBool b)) = (now > (if b then 1 else 0))"
| "now_gt c now (Some (JNum x)) = (real_of_int now > x)"
| "now_gt c now (Some v) =
     (case ToNumber c v of None \<Rightarrow> False | Some x \<Rightarrow> real_of_int now > x)"

text \<open>
  \<open>verifySecureToken\<close>: the body of the \<open>try\<close> block, then the \<open>catch\<close>, which logs
  and returns \<open>null\<close> (\<open>None\<close>). \<open>now\<close> is the value of \<open>Date.now()\<close>.
\<close>

definition verifySecureToken_try :: "node \<Rightarrow> string \<Rightarrow> int \<Rightarrow> string \<Rightarrow> js_error + json option" where
  "verifySecureToken_try c secretKey now token =
     (let parts = split_str CHR ''.'' token in
      if length parts \<noteq> 2 then Inr None
      else
        (let payload = parts ! 0;
             signature = parts ! 1;
             expectedSignature = hmac_sha256_hex c secretKey payload
         in if signature \<noteq> expectedSignature then Inr None
            else (case parse_base64 c payload of
                    Inl msg \<Rightarrow> Inl (Error msg)
                  | Inr decoded \<Rightarrow>
                      (case get_expiry decoded of
                         Inl e \<Rightarrow> Inl e
                       | Inr x \<Rightarrow> if now_gt c now x then Inr None else Inr (Some decoded)))))"

definition verifySecureToken :: "node \<Rightarrow> string \<Rightarrow> int \<Rightarrow> string \<Rightarrow> string list \<times> json option" where
  "verifySecureToken c secretKey now token =
     (case verifySecureToken_try c secretKey now token of
        Inl (Error msg) \<Rightarrow> ([''Token verification error: '' @ msg], None)
      | Inr r \<Rightarrow> ([], r))"

section \<open>PasswordEncryptionHelper (utils/passwordEncryption.js)\<close>

text \<open>
  The sensitive-field walkers. The input is JSON data, on which the deep clone
  \<open>JSON.parse(JSON.stringify(data))\<close> returns an equal value. The lines that \<open>encrypt\<close>
  and \<open>decrypt\<close> write to the console are not part of the walkers' model.
\<close>

definition sensitiveFields :: "string list" where
  "sensitiveFields = [''password'', ''apiKey'', ''token'', ''secret'', ''key'']"

definition deep_clone :: "json \<Rightarrow> json" where
  "deep_clone data = data"


text \<open>
  \<open>encryptObject\<close>: \<open>randomBytes n\<close> is the initialisation vector of the \<open>n\<close>-th call of
  \<open>encrypt\<close>, and the walk returns the number of calls made with its result. An
  exception of \<open>encrypt\<close> ends the walk. \<open>encryptArray\<close> is \<open>obj.map(encryptObject)\<close> and
  \<open>encryptEntries\<close> the loop over \<open>Object.entries(obj)\<close>.
\<close>

fun encryptObject :: "node \<Rightarrow> string \<Rightarrow> (nat \<Rightarrow> byte list) \<Rightarrow> json \<Rightarrow> nat \<Rightarrow> js_error + json \<times> nat"
and encryptArray :: "node \<Rightarrow> string \<Rightarrow> (nat \<Rightarrow> byte list) \<Rightarrow> json list \<Rightarrow> nat \<Rightarrow> js_error + json list \<times> nat"
and encryptEntries :: "node \<Rightarrow> string \<Rightarrow> (nat \<Rightarrow> byte list) \<Rightarrow> (string \<times> json) list \<Rightarrow> nat
                        \<Rightarrow> js_error + (string \<times> json) list \<times> nat"
where
  "encryptObject c k randomBytes (JArr xs) n =
     (case encryptArray c k randomBytes xs n of
        Inl e \<Rightarrow> Inl e
      | Inr (ys, n') \<Rightarrow> Inr (JArr ys, n'))"
| "encryptObject c k randomBytes (JObj kvs) n =
     (case encryptEntries c k randomBytes kvs n of
        Inl e \<Rightarrow> Inl e
      | Inr (result, n') \<Rightarrow> Inr (JObj result, n'))"
| "encryptObject c k randomBytes obj n = Inr (obj, n)"
| "encryptArray c k randomBytes [] n = Inr ([], n)"
| "encryptArray c k randomBytes (x # xs) n =
     (case encryptObject c k randomBytes x n of
        Inl e \<Rightarrow> Inl e
      | Inr (y, n1) \<Rightarrow>
          (case encryptArray c k randomBytes xs n1 of
             Inl e \<Rightarrow> Inl e
           | Inr (ys, n2) \<Rightarrow> Inr (y # ys, n2)))"
| "encryptEntries c k randomBytes [] n = Inr ([], n)"
| "encryptEntries c k randomBytes ((key, value) # rest) n =
     (case (case value of
              JStr s \<Rightarrow>
                if toLowerCase key \<in> set sensitiveFields
                then (case snd (encrypt c k (randomBytes n) s) of
                        Inl e \<Rightarrow> Inl e
                      | Inr enc \<Rightarrow> Inr (JStr enc, Suc n))
                else encryptObject c k randomBytes value n
            | _ \<Rightarrow> encryptObject c k randomBytes value n) of
        Inl e \<Rightarrow> Inl e
      | Inr (v, n1) \<Rightarrow>
          (case encryptEntries c k randomBytes rest n1 of
             Inl e \<Rightarrow> Inl e
           | Inr (result, n2) \<Rightarrow> Inr ((key, v) # result, n2)))"

definition encryptSensitiveFields ::
  "node \<Rightarrow> string \<Rightarrow> (nat \<Rightarrow> byte list) \<Rightarrow> json \<Rightarrow> js_error + json" where
  "encryptSensitiveFields c k randomBytes data =
     (case encryptObject c k randomBytes (deep_clone data) 0 of
        Inl e \<Rightarrow> Inl e
      | Inr (encrypted, n) \<Rightarrow> Inr encrypted)"

text \<open>
  \<open>decryptObject\<close>: the \<open>try\<close>/\<open>catch\<close> around \<open>decrypt\<close> keeps the original value when
  \<open>decrypt\<close> throws.
\<close>

fun decryptObject :: "node \<Rightarrow> string \<Rightarrow> json \<Rightarrow> json" where
  "decryptObject c k (JArr xs) = JArr (map (decryptObject c k) xs)"
| "decryptObject c k (JObj kvs) =
     JObj (map (\<lambda>(key, value).
             (key, (case value of
                      JStr s \<Rightarrow>
                        if toLowerCase key \<in> set sensitiveFields
                        then (case snd (decrypt c k s) of
                                Inl e \<Rightarrow> value
                              | Inr dec \<Rightarrow> JStr dec)
                        else decryptObject c k value
                    | _ \<Rightarrow> decryptObject c k value))) kvs)"
| "decryptObject c k obj = obj"

definition decryptSensitiveFields :: "node \<Rightarrow> string \<Rightarrow> json \<Rightarrow> json" where
  "decryptSensitiveFields c k data = decryptObject c k (deep_clone data)"

section \<open>TestDataManager (utils/testDataManager.js)\<close>

subsection \<open>The manager and its collaborators\<close>

text \<open>
  The \<open>faker\<close> library and \<open>crypto.randomBytes\<close> are a source of values outside the
  repository. Each call site is given an index \<open>[n, k]\<close> (or \<open>[n, k, i]\<close> in the
  \<open>i\<close>-th round of a loop), where \<open>n\<close> counts the \<open>generate\<close> calls made so far, so that
  no two calls share an index. A method is named by its path, with the arguments it
  receives. \<open>number_mul\<close> and \<open>number_add\<close> are the floating-point \<open>*\<close> and \<open>+\<close>.
\<close>

record faker =
  fake_string :: "string \<Rightarrow> json list \<Rightarrow> nat list \<Rightarrow> string"
  fake_number :: "string \<Rightarrow> json list \<Rightarrow> nat list \<Rightarrow> real"
  fake_boolean :: "nat list \<Rightarrow> bool"
  arrayElement :: "json list \<Rightarrow> nat list \<Rightarrow> js_error + json"
  randomBytes :: "nat list \<Rightarrow> byte list"
  number_mul :: "real \<Rightarrow> real \<Rightarrow> real"
  number_add :: "real \<Rightarrow> real \<Rightarrow> real"





subsection \<open>JavaScript conventions used by the generators\<close>









subsection \<open>The registry\<close>






subsection \<open>The generators\<close>

record user_options =
  role :: "json option"
  domain :: "json option"
  encryptedPassword :: "json option"
  includeProfile :: "json option"
  includePreferences :: "json option"
















subsection \<open>Cleanup\<close>










section \<open>Example values\<close>

text \<open>
  The values of the library functions at the inputs of the examples below: the SHA-256
  digests of two passphrases (\<open>example_key\<close> is the digest of the default passphrase of
  the constructor), one AES-256-CBC encryption under \<open>example_key\<close>, and three signed
  token payloads with their base64 encodings and HMAC-SHA256 signatures. At other
  inputs \<open>example_node\<close> returns a fixed value or reports a failure.
\<close>

definition example_key :: string where
  "example_key = ''31814522e7617c7ff7929e4d5fc4e81c10765c8047a3b5110dbced2d987effb7''"

definition example_iv :: "byte list" where
  "example_iv = [0, 1, 2, 3, 4, 5, 6, 7, 8, 9, 10, 11, 12, 13, 14, 15]"

definition example_ciphertext :: "byte list" where
  "example_ciphertext =
     [0xc6, 0xb9, 0x0f, 0xf2, 0xea, 0xf5, 0x9c, 0xed, 0x08, 0x8e, 0x78, 0xfd, 0xb5, 0xac, 0x53, 0x8e]"

definition example_payload :: "real \<Rightarrow> json" where
  "example_payload e =
     JObj [(''data'', JStr ''user1''), (''timestamp'', JNum 1700000000000), (''expiry'', JNum e)]"

definition example_tokens :: "(real \<times> string \<times> string) list" where
  "example_tokens =
     [(1700003600000,
       ''eyJkYXRhIjoidXNlcjEiLCJ0aW1lc3RhbXAiOjE3MDAwMDAwMDAwMDAsImV4cGlyeSI6MTcwMDAwMzYwMDAwMH0='',
       ''321d0d544be670c68d67510b23ddc999814f7e5470d96b0b91ac8978b55aa33a''),
      (1700000000000,
       ''eyJkYXRhIjoidXNlcjEiLCJ0aW1lc3RhbXAiOjE3MDAwMDAwMDAwMDAsImV4cGlyeSI6MTcwMDAwMDAwMDAwMH0='',
       ''c14bf9d571b8c396ef2939efe2a573bde42bfe03540759b251ca07c6b1b87532''),
      (1699999940000,
       ''eyJkYXRhIjoidXNlcjEiLCJ0aW1lc3RhbXAiOjE3MDAwMDAwMDAwMDAsImV4cGlyeSI6MTY5OTk5OTk0MDAwMH0='',
       ''30f05e513ca2a7cf464259a2cadd498b0dbd0791888c7c5c010894767c5245a4'')]"

definition example_node :: node where
  "example_node =
     \<lparr>sha256_hex = (\<lambda>s.
        if s = ''your-32-character-secret-key-here'' then example_key
        else if s = ''my-passphrase''
        then ''3f24003e81ab6f41e55cc29bd6004edfef4d838c9b2db143119ff982c2fe1fbb''
        else ''0000000000000000000000000000000000000000000000000000000000000000''),
      hmac_sha256_hex = (\<lambda>k s.
        case find (\<lambda>(e, b, sg). k = example_key \<and> b = s) example_tokens of
          Some (e, b, sg) \<Rightarrow> sg
        | None \<Rightarrow> ''0000000000000000000000000000000000000000000000000000000000000000''),
      cipheriv = (\<lambda>key iv s.
        if key = Buffer_from_hex example_key \<and> iv = example_iv \<and> s = ''AdminPass123!''
        then Inr example_ciphertext
        else Inl ''unsupported''),
      decipheriv = (\<lambda>key iv ct.
        if length iv \<noteq> 16 then Inl ''Invalid initialization vector''
        else if key = Buffer_from_hex example_key \<and> iv = example_iv \<and> ct = example_ciphertext
        then Inr ''AdminPass123!''
        else Inl ''bad decrypt''),
      stringify_base64 = (\<lambda>v.
        case find (\<lambda>(e, b, sg). v = example_payload e) example_tokens of
          Some (e, b, sg) \<Rightarrow> b
        | None \<Rightarrow> []),
      parse_base64 = (\<lambda>s.
        case find (\<lambda>(e, b, sg). b = s) example_tokens of
          Some (e, b, sg) \<Rightarrow> Inr (example_payload e)
        | None \<Rightarrow> Inl ''Unexpected token''),
      ToNumber = (\<lambda>v. None)\<rparr>"













section \<open>Properties\<close>

subsection \<open>Splitting and hexadecimal encoding\<close>

lemma split_str_not_Nil: "split_str sep s \<noteq> []"
  by (induction s) (auto split: list.splits)

lemma split_str_no_sep: "sep \<notin> set s \<Longrightarrow> split_str sep s = [s]"
  by (induction s) auto

lemma split_str_append: "sep \<notin> set a \<Longrightarrow> split_str sep (a @ sep # b) = a # split_str sep b"
  by (induction a) auto

lemma length_split_str: "length (split_str sep s) = Suc (count_list s sep)"
  by (induction s) (auto split: list.splits simp: split_str_not_Nil)







lemma is_hex_not_dot: "is_hex c \<Longrightarrow> c \<noteq> CHR ''.''"
  by (auto simp: is_hex_def hex_value_def)



lemma dot_notin_hex: "list_all is_hex s \<Longrightarrow> CHR ''.'' \<notin> set s"
  using is_hex_not_dot by (auto simp: list_all_iff)

subsection \<open>Encryption and decryption\<close>






subsection \<open>Key derivation\<close>

text \<open>
  Claim C8. \<open>prepareSecretKey\<close> returns a string of 64 hexadecimal digits for every
  passphrase, given that the SHA-256 digest of the passphrase is one: a passphrase of
  64 hexadecimal digits is returned unchanged, any other passphrase gives its digest.
  The source reads nothing but its argument and has no failing branch, so the model
  is a function of the passphrase (and of SHA-256): equal passphrases give equal keys.
\<close>

theorem prepareSecretKey_valid:
  assumes "length (sha256_hex c key) = 64 \<and> list_all is_hex (sha256_hex c key)"
  shows "length (prepareSecretKey c key) = 64 \<and> list_all is_hex (prepareSecretKey c key)
       \<and> (length key = 64 \<and> list_all is_hex key \<longrightarrow> prepareSecretKey c key = key)
       \<and> (\<not> (length key = 64 \<and> list_all is_hex key) \<longrightarrow>
            prepareSecretKey c key = sha256_hex c key)"
  using assms by (simp add: prepareSecretKey_def)

theorem prepareSecretKey_valid_witness:
  "prepareSecretKey example_node ''my-passphrase''
     = ''3f24003e81ab6f41e55cc29bd6004edfef4d838c9b2db143119ff982c2fe1fbb''
   \<and> length (prepareSecretKey example_node ''my-passphrase'') = 64
   \<and> list_all is_hex (prepareSecretKey example_node ''my-passphrase'')
   \<and> prepareSecretKey example_node example_key = example_key"
proof -
  have digest: "length (sha256_hex example_node ''my-passphrase'') = 64
      \<and> list_all is_hex (sha256_hex example_node ''my-passphrase'')"
    by (simp add: example_node_def is_hex_def hex_value_def)
  have digest': "length (sha256_hex example_node example_key) = 64
      \<and> list_all is_hex (sha256_hex example_node example_key)"
    by (simp add: example_node_def example_key_def is_hex_def hex_value_def list_all_iff)
  have key: "length example_key = 64 \<and> list_all is_hex example_key"
    by (simp add: example_key_def is_hex_def hex_value_def)
  have other: "\<not> (length ''my-passphrase'' = 64 \<and> list_all is_hex ''my-passphrase'')"
    by simp
  have r1: "length (prepareSecretKey example_node ''my-passphrase'') = 64
      \<and> list_all is_hex (prepareSecretKey example_node ''my-passphrase'')"
    using prepareSecretKey_valid [OF digest] by blast
  have r2: "prepareSecretKey example_node ''my-passphrase''
      = sha256_hex example_node ''my-passphrase''"
    using prepareSecretKey_valid [OF digest] other by blast
  have r3: "prepareSecretKey example_node example_key = example_key"
    using prepareSecretKey_valid [OF digest'] key by blast
  have v: "sha256_hex example_node ''my-passphrase''
      = ''3f24003e81ab6f41e55cc29bd6004edfef4d838c9b2db143119ff982c2fe1fbb''"
    by (simp add: example_node_def)
  show ?thesis
    using r1 r2 r3 v by simp
qed

subsection \<open>Password generation\<close>






lemma charset_of_empty_iff:
  "charset_of options = [] \<longleftrightarrow>
     includeLowercase options = Some False \<and> includeUppercase options = Some False
     \<and> includeNumbers options = Some False \<and> includeSymbols options = Some False"
  by (auto simp: charset_of_def default_true_def split: option.splits)



subsection \<open>Secure tokens\<close>

lemma verify_parts:
  assumes "split_str CHR ''.'' token = [payload, signature]"
  shows "verifySecureToken_try c key now token =
     (if signature \<noteq> hmac_sha256_hex c key payload then Inr None
      else (case parse_base64 c payload of
              Inl msg \<Rightarrow> Inl (Error msg)
            | Inr decoded \<Rightarrow>
                (case get_expiry decoded of
                   Inl e \<Rightarrow> Inl e
                 | Inr x \<Rightarrow> if now_gt c now x then Inr None else Inr (Some decoded))))"
  using assms by (simp add: verifySecureToken_try_def del: split_str.simps)

lemma verify_catch:
  "verifySecureToken_try c key now token = Inl e \<Longrightarrow> snd (verifySecureToken c key now token) = None"
  by (cases e) (simp add: verifySecureToken_def)

text \<open>
  Claim C3. \<open>verifySecureToken\<close> returns \<open>null\<close> (\<open>None\<close>) or a payload and never
  throws: a token that does not split on \<open>.\<close> into two parts, a signature that differs
  from the recomputed HMAC, a payload that fails to parse or parses to \<open>null\<close>, and any
  exception inside the \<open>try\<close> block all give \<open>null\<close>; a token of two parts with the
  right signature whose payload parses to an object with \<open>expiry\<close> not before the
  current time gives that object.
\<close>

theorem verifySecureToken_null_or_payload:
  "(length (split_str CHR ''.'' token) \<noteq> 2 \<longrightarrow> snd (verifySecureToken c key now token) = None)
   \<and> (\<forall>payload signature.
         split_str CHR ''.'' token = [payload, signature]
         \<and> signature \<noteq> hmac_sha256_hex c key payload \<longrightarrow>
         snd (verifySecureToken c key now token) = None)
   \<and> (\<forall>payload signature msg.
         split_str CHR ''.'' token = [payload, signature]
         \<and> parse_base64 c payload = Inl msg \<longrightarrow>
         snd (verifySecureToken c key now token) = None)
   \<and> (\<forall>payload signature.
         split_str CHR ''.'' token = [payload, signature]
         \<and> parse_base64 c payload = Inr JNull \<longrightarrow>
         snd (verifySecureToken c key now token) = None)
   \<and> (\<forall>e. verifySecureToken_try c key now token = Inl e \<longrightarrow>
         snd (verifySecureToken c key now token) = None)
   \<and> (\<forall>payload kvs e.
         split_str CHR ''.'' token = [payload, hmac_sha256_hex c key payload]
         \<and> parse_base64 c payload = Inr (JObj kvs)
         \<and> map_of kvs ''expiry'' = Some (JNum e)
         \<and> real_of_int now \<le> e \<longrightarrow>
         verifySecureToken c key now token = ([], Some (JObj kvs)))"
proof (intro conjI allI impI)
  assume "length (split_str CHR ''.'' token) \<noteq> 2"
  then show "snd (verifySecureToken c key now token) = None"
    by (simp add: verifySecureToken_def verifySecureToken_try_def del: split_str.simps)
next
  fix payload signature
  assume "split_str CHR ''.'' token = [payload, signature]
          \<and> signature \<noteq> hmac_sha256_hex c key payload"
  then show "snd (verifySecureToken c key now token) = None"
    by (simp add: verifySecureToken_def verify_parts)
next
  fix payload signature msg
  assume "split_str CHR ''.'' token = [payload, signature] \<and> parse_base64 c payload = Inl msg"
  then show "snd (verifySecureToken c key now token) = None"
    by (simp add: verifySecureToken_def verify_parts)
next
  fix payload signature
  assume "split_str CHR ''.'' token = [payload, signature] \<and> parse_base64 c payload = Inr JNull"
  then show "snd (verifySecureToken c key now token) = None"
    by (simp add: verifySecureToken_def verify_parts)
next
  fix e
  assume "verifySecureToken_try c key now token = Inl e"
  then show "snd (verifySecureToken c key now token) = None"
    by (rule verify_catch)
next
  fix payload kvs e
  assume "split_str CHR ''.'' token = [payload, hmac_sha256_hex c key payload]
          \<and> parse_base64 c payload = Inr (JObj kvs)
          \<and> map_of kvs ''expiry'' = Some (JNum e)
          \<and> real_of_int now \<le> e"
  then show "verifySecureToken c key now token = ([], Some (JObj kvs))"
    by (simp add: verifySecureToken_def verify_parts)
qed

theorem verifySecureToken_null_or_payload_witness:
  "verifySecureToken example_node example_key 1700000000000
     ''eyJkYXRhIjoidXNlcjEiLCJ0aW1lc3RhbXAiOjE3MDAwMDAwMDAwMDAsImV4cGlyeSI6MTcwMDAwMzYwMDAwMH0=.321d0d544be670c68d67510b23ddc999814f7e5470d96b0b91ac8978b55aa33a''
     = ([], Some (JObj [(''data'', JStr ''user1''), (''timestamp'', JNum 1700000000000),
                        (''expiry'', JNum 1700003600000)]))
   \<and> snd (verifySecureToken example_node example_key 1700000000000 ''invalid.token'') = None
   \<and> snd (verifySecureToken example_node example_key 1700000000000 ''no-separator'') = None"
proof -
  have good: "split_str CHR ''.''
      ''eyJkYXRhIjoidXNlcjEiLCJ0aW1lc3RhbXAiOjE3MDAwMDAwMDAwMDAsImV4cGlyeSI6MTcwMDAwMzYwMDAwMH0=.321d0d544be670c68d67510b23ddc999814f7e5470d96b0b91ac8978b55aa33a''
      = [''eyJkYXRhIjoidXNlcjEiLCJ0aW1lc3RhbXAiOjE3MDAwMDAwMDAwMDAsImV4cGlyeSI6MTcwMDAwMzYwMDAwMH0='',
         hmac_sha256_hex example_node example_key
           ''eyJkYXRhIjoidXNlcjEiLCJ0aW1lc3RhbXAiOjE3MDAwMDAwMDAwMDAsImV4cGlyeSI6MTcwMDAwMzYwMDAwMH0='']
    \<and> parse_base64 example_node
          ''eyJkYXRhIjoidXNlcjEiLCJ0aW1lc3RhbXAiOjE3MDAwMDAwMDAwMDAsImV4cGlyeSI6MTcwMDAwMzYwMDAwMH0=''
        = Inr (JObj [(''data'', JStr ''user1''), (''timestamp'', JNum 1700000000000),
                     (''expiry'', JNum 1700003600000)])
    \<and> map_of [(''data'', JStr ''user1''), (''timestamp'', JNum 1700000000000),
               (''expiry'', JNum 1700003600000)] ''expiry'' = Some (JNum 1700003600000)
    \<and> real_of_int 1700000000000 \<le> 1700003600000"
    by (simp add: example_node_def example_tokens_def example_payload_def)
  have bad: "split_str CHR ''.'' ''invalid.token'' = [''invalid'', ''token'']
    \<and> ''token'' \<noteq> hmac_sha256_hex example_node example_key ''invalid''"
    by (simp add: example_node_def example_tokens_def)
  have none: "length (split_str CHR ''.'' ''no-separator'') \<noteq> 2"
    by simp
  have r1: "verifySecureToken example_node example_key 1700000000000
     ''eyJkYXRhIjoidXNlcjEiLCJ0aW1lc3RhbXAiOjE3MDAwMDAwMDAwMDAsImV4cGlyeSI6MTcwMDAwMzYwMDAwMH0=.321d0d544be670c68d67510b23ddc999814f7e5470d96b0b91ac8978b55aa33a''
     = ([], Some (JObj [(''data'', JStr ''user1''), (''timestamp'', JNum 1700000000000),
                        (''expiry'', JNum 1700003600000)]))"
    using verifySecureToken_null_or_payload [THEN conjunct2, THEN conjunct2, THEN conjunct2,
            THEN conjunct2, THEN conjunct2, rule_format, OF good] .
  have r2: "snd (verifySecureToken example_node example_key 1700000000000 ''invalid.token'') = None"
    using verifySecureToken_null_or_payload [THEN conjunct2, THEN conjunct1, rule_format, OF bad] .
  have r3: "snd (verifySecureToken example_node example_key 1700000000000 ''no-separator'') = None"
    using verifySecureToken_null_or_payload [THEN conjunct1, rule_format, OF none] .
  from r1 r2 r3 show ?thesis by blast
qed

lemma split_token:
  assumes "CHR ''.'' \<notin> set p" and "CHR ''.'' \<notin> set sg"
  shows "split_str CHR ''.'' (p @ CHR ''.'' # sg) = [p, sg]"
  using split_str_append [OF assms(1), of sg] assms(2) by (simp add: split_str_no_sep)

lemma verify_created:
  assumes "CHR ''.'' \<notin> set (stringify_base64 c P)"
      and "CHR ''.'' \<notin> set (hmac_sha256_hex c key (stringify_base64 c P))"
      and "parse_base64 c (stringify_base64 c P) = Inr P"
      and "P = JObj [(''data'', JStr data), (''timestamp'', JNum (of_int now1)),
                     (''expiry'', JNum (of_int (now2 + ttl * 60 * 1000)))]"
  shows "snd (verifySecureToken c key now3 (createSecureToken c key now1 now2 data ttl))
           = (if now3 > now2 + ttl * 60 * 1000 then None else Some P)"
proof -
  have tok: "createSecureToken c key now1 now2 data ttl
      = stringify_base64 c P @ CHR ''.'' # hmac_sha256_hex c key (stringify_base64 c P)"
    by (simp add: createSecureToken_def assms(4) Let_def)
  have parts: "split_str CHR ''.'' (createSecureToken c key now1 now2 data ttl)
      = [stringify_base64 c P, hmac_sha256_hex c key (stringify_base64 c P)]"
    unfolding tok by (rule split_token [OF assms(1) assms(2)])
  have ex: "get_expiry P = Inr (Some (JNum (of_int (now2 + ttl * 60 * 1000))))"
    by (simp add: assms(4))
  show ?thesis
    by (simp add: verifySecureToken_def verify_parts [OF parts] assms(3) ex del: of_int_add of_int_mult)
qed

lemma verify_accepts_only_unexpired:
  assumes "snd (verifySecureToken c key now token) = Some v"
      and "get_expiry v = Inr (Some (JNum e))"
  shows "real_of_int now \<le> e"
proof -
  from assms(1) obtain r where r: "verifySecureToken_try c key now token = Inr (Some v)"
    by (auto simp: verifySecureToken_def split: sum.splits js_error.splits)
  then show ?thesis
    using assms(2)
    by (auto simp: verifySecureToken_try_def Let_def split: if_splits sum.splits simp del: split_str.simps)
qed

lemma example_codec:
  "(e, b, sg) \<in> set example_tokens \<Longrightarrow>
     stringify_base64 example_node (example_payload e) = b
     \<and> hmac_sha256_hex example_node example_key b = sg
     \<and> parse_base64 example_node b = Inr (example_payload e)"
  by (auto simp: example_tokens_def example_node_def example_payload_def)

text \<open>
  Claim C4, as the code has it. The check is \<open>Date.now() > decoded.expiry\<close>: a token
  is accepted only when its expiry is not before the time of verification, and a
  token whose expiry equals that time is accepted. A token created by
  \<open>createSecureToken\<close> is rejected exactly when the time of verification is after
  its expiry; so with a lifetime of \<open>-1\<close> minutes it is rejected at any time from its
  creation on, and with 60 minutes it is accepted, with the original data, until
  its expiry. The hypotheses say that the base64 and JSON codec of the runtime writes
  no \<open>.\<close>, that the HMAC digest has none, and that parsing inverts the encoding of
  the payload.
\<close>

theorem token_expiry:
  assumes "CHR ''.'' \<notin> set (stringify_base64 c P)"
      and "CHR ''.'' \<notin> set (hmac_sha256_hex c key (stringify_base64 c P))"
      and "parse_base64 c (stringify_base64 c P) = Inr P"
      and "P = JObj [(''data'', JStr data), (''timestamp'', JNum (of_int now1)),
                     (''expiry'', JNum (of_int (now2 + ttl * 60 * 1000)))]"
  shows "(\<forall>now token v e.
            snd (verifySecureToken c key now token) = Some v
            \<and> get_expiry v = Inr (Some (JNum e)) \<longrightarrow> real_of_int now \<le> e)
       \<and> snd (verifySecureToken c key now3 (createSecureToken c key now1 now2 data ttl))
           = (if now3 > now2 + ttl * 60 * 1000 then None else Some P)
       \<and> (ttl = - 1 \<and> now2 \<le> now3 \<longrightarrow>
            snd (verifySecureToken c key now3 (createSecureToken c key now1 now2 data ttl)) = None)
       \<and> (ttl = 60 \<and> now3 \<le> now2 + 3600000 \<longrightarrow>
            snd (verifySecureToken c key now3 (createSecureToken c key now1 now2 data ttl)) = Some P
            \<and> (case P of JObj kvs \<Rightarrow> map_of kvs ''data'' | _ \<Rightarrow> None) = Some (JStr data))"
proof (intro conjI allI impI)
  fix now token v e
  assume "snd (verifySecureToken c key now token) = Some v \<and> get_expiry v = Inr (Some (JNum e))"
  then show "real_of_int now \<le> e"
    using verify_accepts_only_unexpired by blast
next
  show "snd (verifySecureToken c key now3 (createSecureToken c key now1 now2 data ttl))
           = (if now3 > now2 + ttl * 60 * 1000 then None else Some P)"
    by (rule verify_created [OF assms])
next
  assume "ttl = - 1 \<and> now2 \<le> now3"
  then have "now3 > now2 + ttl * 60 * 1000" by simp
  then show "snd (verifySecureToken c key now3 (createSecureToken c key now1 now2 data ttl)) = None"
    using verify_created [OF assms, of now3] by simp
next
  assume "ttl = 60 \<and> now3 \<le> now2 + 3600000"
  then have "\<not> now3 > now2 + ttl * 60 * 1000" by simp
  then show "snd (verifySecureToken c key now3 (createSecureToken c key now1 now2 data ttl)) = Some P"
    using verify_created [OF assms, of now3] by simp
next
  assume "ttl = 60 \<and> now3 \<le> now2 + 3600000"
  show "(case P of JObj kvs \<Rightarrow> map_of kvs ''data'' | _ \<Rightarrow> None) = Some (JStr data)"
    by (simp add: assms(4))
qed

theorem token_expiry_witness:
  "snd (verifySecureToken example_node example_key 1700000000000
          (createSecureToken example_node example_key 1700000000000 1700000000000 ''user1'' 60))
     = Some (example_payload 1700003600000)
   \<and> snd (verifySecureToken example_node example_key 1700000000000
          (createSecureToken example_node example_key 1700000000000 1700000000000 ''user1'' (- 1)))
     = None"
proof -
  have a1: "CHR ''.'' \<notin> set (stringify_base64 example_node (example_payload 1700003600000))"
    by (simp add: example_node_def example_tokens_def example_payload_def)
  have a2: "CHR ''.'' \<notin> set (hmac_sha256_hex example_node example_key
              (stringify_base64 example_node (example_payload 1700003600000)))"
    by (simp add: example_node_def example_tokens_def example_payload_def)
  have a3: "parse_base64 example_node (stringify_base64 example_node (example_payload 1700003600000))
              = Inr (example_payload 1700003600000)"
    by (simp add: example_node_def example_tokens_def example_payload_def)
  have a4: "example_payload 1700003600000
      = JObj [(''data'', JStr ''user1''), (''timestamp'', JNum (of_int 1700000000000)),
              (''expiry'', JNum (of_int (1700000000000 + 60 * 60 * 1000)))]"
    by (simp add: example_payload_def)
  have b1: "CHR ''.'' \<notin> set (stringify_base64 example_node (example_payload 1699999940000))"
    by (simp add: example_node_def example_tokens_def example_payload_def)
  have b2: "CHR ''.'' \<notin> set (hmac_sha256_hex example_node example_key
              (stringify_base64 example_node (example_payload 1699999940000)))"
    by (simp add: example_node_def example_tokens_def example_payload_def)
  have b3: "parse_base64 example_node (stringify_base64 example_node (example_payload 1699999940000))
              = Inr (example_payload 1699999940000)"
    by (simp add: example_node_def example_tokens_def example_payload_def)
  have b4: "example_payload 1699999940000
      = JObj [(''data'', JStr ''user1''), (''timestamp'', JNum (of_int 1700000000000)),
              (''expiry'', JNum (of_int (1700000000000 + (- 1) * 60 * 1000)))]"
    by (simp add: example_payload_def)
  have fresh: "(60::int) = 60 \<and> (1700000000000::int) \<le> 1700000000000 + 3600000" by simp
  have stale: "(- 1::int) = - 1 \<and> (1700000000000::int) \<le> 1700000000000" by simp
  show ?thesis
    using token_expiry [OF a1 a2 a3 a4, of 1700000000000, THEN conjunct2, THEN conjunct2,
            THEN conjunct2, rule_format, OF fresh, THEN conjunct1]
          token_expiry [OF b1 b2 b3 b4, of 1700000000000, THEN conjunct2, THEN conjunct2,
            THEN conjunct1, rule_format, OF stale]
    by simp
qed

text \<open>
  Claim C4 as stated fails when the expiry equals the time of verification: a token
  created with a lifetime of 0 minutes and verified in the same millisecond is
  accepted.
\<close>

theorem token_expiry_counterexample:
  "createSecureToken example_node example_key 1700000000000 1700000000000 ''user1'' 0
     = ''eyJkYXRhIjoidXNlcjEiLCJ0aW1lc3RhbXAiOjE3MDAwMDAwMDAwMDAsImV4cGlyeSI6MTcwMDAwMDAwMDAwMH0=.c14bf9d571b8c396ef2939efe2a573bde42bfe03540759b251ca07c6b1b87532''
   \<and> snd (verifySecureToken example_node example_key 1700000000000
          (createSecureToken example_node example_key 1700000000000 1700000000000 ''user1'' 0))
     = Some (JObj [(''data'', JStr ''user1''), (''timestamp'', JNum 1700000000000),
                   (''expiry'', JNum 1700000000000)])"
proof -
  have cod: "stringify_base64 example_node (example_payload 1700000000000)
         = ''eyJkYXRhIjoidXNlcjEiLCJ0aW1lc3RhbXAiOjE3MDAwMDAwMDAwMDAsImV4cGlyeSI6MTcwMDAwMDAwMDAwMH0=''
      \<and> hmac_sha256_hex example_node example_key
           ''eyJkYXRhIjoidXNlcjEiLCJ0aW1lc3RhbXAiOjE3MDAwMDAwMDAwMDAsImV4cGlyeSI6MTcwMDAwMDAwMDAwMH0=''
         = ''c14bf9d571b8c396ef2939efe2a573bde42bfe03540759b251ca07c6b1b87532''
      \<and> parse_base64 example_node
           ''eyJkYXRhIjoidXNlcjEiLCJ0aW1lc3RhbXAiOjE3MDAwMDAwMDAwMDAsImV4cGlyeSI6MTcwMDAwMDAwMDAwMH0=''
         = Inr (example_payload 1700000000000)"
    by (rule example_codec) (simp add: example_tokens_def)
  have tok: "createSecureToken example_node example_key 1700000000000 1700000000000 ''user1'' 0
     = ''eyJkYXRhIjoidXNlcjEiLCJ0aW1lc3RhbXAiOjE3MDAwMDAwMDAwMDAsImV4cGlyeSI6MTcwMDAwMDAwMDAwMH0=.c14bf9d571b8c396ef2939efe2a573bde42bfe03540759b251ca07c6b1b87532''"
    using cod by (simp add: createSecureToken_def example_payload_def)
  have parts: "split_str CHR ''.''
      ''eyJkYXRhIjoidXNlcjEiLCJ0aW1lc3RhbXAiOjE3MDAwMDAwMDAwMDAsImV4cGlyeSI6MTcwMDAwMDAwMDAwMH0=.c14bf9d571b8c396ef2939efe2a573bde42bfe03540759b251ca07c6b1b87532''
      = [''eyJkYXRhIjoidXNlcjEiLCJ0aW1lc3RhbXAiOjE3MDAwMDAwMDAwMDAsImV4cGlyeSI6MTcwMDAwMDAwMDAwMH0='',
         ''c14bf9d571b8c396ef2939efe2a573bde42bfe03540759b251ca07c6b1b87532'']"
    by simp
  have "snd (verifySecureToken example_node example_key 1700000000000
      ''eyJkYXRhIjoidXNlcjEiLCJ0aW1lc3RhbXAiOjE3MDAwMDAwMDAwMDAsImV4cGlyeSI6MTcwMDAwMDAwMDAwMH0=.c14bf9d571b8c396ef2939efe2a573bde42bfe03540759b251ca07c6b1b87532'')
     = Some (JObj [(''data'', JStr ''user1''), (''timestamp'', JNum 1700000000000),
                   (''expiry'', JNum 1700000000000)])"
    using cod
    by (simp add: verifySecureToken_def verify_parts [OF parts] example_payload_def
          del: split_str.simps)
  with tok show ?thesis by simp
qed


subsection \<open>The sensitive-field walkers\<close>






lemma toLowerCase_char_not_K: "toLowerCase_char c \<noteq> CHR ''K''"
  by (simp add: toLowerCase_char_def split: option.splits)

lemma toLowerCase_not_apiKey: "toLowerCase key \<noteq> ''apiKey''"
proof
  assume "toLowerCase key = ''apiKey''"
  then have "CHR ''K'' \<in> set (map toLowerCase_char key)"
    by (simp add: toLowerCase_def)
  then obtain x where "toLowerCase_char x = CHR ''K''"
    by auto
  then show False
    using toLowerCase_char_not_K by blast
qed

text \<open>
  Claim C2 fails on the code. The walkers compare the lowercased key with a list
  that holds \<open>apiKey\<close> in mixed case, which no lowercased key equals: a string field
  named \<open>apiKey\<close> is neither encrypted nor decrypted.
\<close>

theorem apiKey_never_encrypted:
  "toLowerCase key \<noteq> ''apiKey''
   \<and> encryptSensitiveFields c k rb (JObj [(''apiKey'', JStr s)])
       = Inr (JObj [(''apiKey'', JStr s)])
   \<and> decryptSensitiveFields c k (JObj [(''apiKey'', JStr s)]) = JObj [(''apiKey'', JStr s)]"
proof (intro conjI)
  show "toLowerCase key \<noteq> ''apiKey''"
    by (rule toLowerCase_not_apiKey)
next
  show "encryptSensitiveFields c k rb (JObj [(''apiKey'', JStr s)])
       = Inr (JObj [(''apiKey'', JStr s)])"
    by (simp add: encryptSensitiveFields_def deep_clone_def toLowerCase_def
          toLowerCase_char_def sensitiveFields_def)
next
  show "decryptSensitiveFields c k (JObj [(''apiKey'', JStr s)]) = JObj [(''apiKey'', JStr s)]"
    by (simp add: decryptSensitiveFields_def deep_clone_def toLowerCase_def
          toLowerCase_char_def sensitiveFields_def)
qed


subsection \<open>The registry\<close>














subsection \<open>Cleanup\<close>










end
